theory Spec2Isabelle
  imports Main "HOL-Library.Multiset"
begin

unbundle bit_operations_syntax

section \<open>hashlib.md5: the MD5 digest of RFC 1321\<close>

text \<open>
  \<open>add_user\<close> derives the referral code from \<open>hashlib.md5(...).hexdigest()[:8]\<close>. The digest
  is modelled after RFC 1321. A 32-bit word is an integer in \<open>[0, 2^32)\<close>; addition wraps
  around (\<open>mod 4294967296\<close>), and the complement and the left rotation are written out on
  that range. Each of the four rounds is a table of sixteen steps \<open>(k, s, T)\<close>: the index
  of the message word, the rotation and the additive constant, as the RFC lists them.
\<close>

definition add32 :: "int \<Rightarrow> int \<Rightarrow> int" where
  "add32 x y = (x + y) mod 4294967296"

definition not32 :: "int \<Rightarrow> int" where
  "not32 x = 4294967295 - x"

definition rotl32 :: "nat \<Rightarrow> int \<Rightarrow> int" where
  "rotl32 s x = (x * 2 ^ s) mod 4294967296 + x div 2 ^ (32 - s)"

definition md5_F :: "int \<Rightarrow> int \<Rightarrow> int \<Rightarrow> int" where
  "md5_F x y z = (x AND y) OR (not32 x AND z)"

definition md5_G :: "int \<Rightarrow> int \<Rightarrow> int \<Rightarrow> int" where
  "md5_G x y z = (x AND z) OR (y AND not32 z)"

definition md5_H :: "int \<Rightarrow> int \<Rightarrow> int \<Rightarrow> int" where
  "md5_H x y z = x XOR y XOR z"

definition md5_I :: "int \<Rightarrow> int \<Rightarrow> int \<Rightarrow> int" where
  "md5_I x y z = y XOR (x OR not32 z)"

definition md5_round1 :: "(nat \<times> nat \<times> int) list" where
  "md5_round1 =
    [(0, 7, 0xd76aa478), (1, 12, 0xe8c7b756), (2, 17, 0x242070db), (3, 22, 0xc1bdceee),
     (4, 7, 0xf57c0faf), (5, 12, 0x4787c62a), (6, 17, 0xa8304613), (7, 22, 0xfd469501),
     (8, 7, 0x698098d8), (9, 12, 0x8b44f7af), (10, 17, 0xffff5bb1), (11, 22, 0x895cd7be),
     (12, 7, 0x6b901122), (13, 12, 0xfd987193), (14, 17, 0xa679438e), (15, 22, 0x49b40821)]"

definition md5_round2 :: "(nat \<times> nat \<times> int) list" where
  "md5_round2 =
    [(1, 5, 0xf61e2562), (6, 9, 0xc040b340), (11, 14, 0x265e5a51), (0, 20, 0xe9b6c7aa),
     (5, 5, 0xd62f105d), (10, 9, 0x02441453), (15, 14, 0xd8a1e681), (4, 20, 0xe7d3fbc8),
     (9, 5, 0x21e1cde6), (14, 9, 0xc33707d6), (3, 14, 0xf4d50d87), (8, 20, 0x455a14ed),
     (13, 5, 0xa9e3e905), (2, 9, 0xfcefa3f8), (7, 14, 0x676f02d9), (12, 20, 0x8d2a4c8a)]"

definition md5_round3 :: "(nat \<times> nat \<times> int) list" where
  "md5_round3 =
    [(5, 4, 0xfffa3942), (8, 11, 0x8771f681), (11, 16, 0x6d9d6122), (14, 23, 0xfde5380c),
     (1, 4, 0xa4beea44), (4, 11, 0x4bdecfa9), (7, 16, 0xf6bb4b60), (10, 23, 0xbebfbc70),
     (13, 4, 0x289b7ec6), (0, 11, 0xeaa127fa), (3, 16, 0xd4ef3085), (6, 23, 0x04881d05),
     (9, 4, 0xd9d4d039), (12, 11, 0xe6db99e5), (15, 16, 0x1fa27cf8), (2, 23, 0xc4ac5665)]"

definition md5_round4 :: "(nat \<times> nat \<times> int) list" where
  "md5_round4 =
    [(0, 6, 0xf4292244), (7, 10, 0x432aff97), (14, 15, 0xab9423a7), (5, 21, 0xfc93a039),
     (12, 6, 0x655b59c3), (3, 10, 0x8f0ccc92), (10, 15, 0xffeff47d), (1, 21, 0x85845dd1),
     (8, 6, 0x6fa87e4f), (15, 10, 0xfe2ce6e0), (6, 15, 0xa3014314), (13, 21, 0x4e0811a1),
     (4, 6, 0xf7537e82), (11, 10, 0xbd3af235), (2, 15, 0x2ad7d2bb), (9, 21, 0xeb86d391)]"


type_synonym md5_state = "int \<times> int \<times> int \<times> int"

fun md5_step ::
  "(int \<Rightarrow> int \<Rightarrow> int \<Rightarrow> int) \<Rightarrow> int list \<Rightarrow> nat \<times> nat \<times> int \<Rightarrow> md5_state \<Rightarrow> md5_state" where
  "md5_step f m (k, s, t) (a, b, c, d) =
     (d, add32 b (rotl32 s (add32 (add32 (add32 a (f b c d)) t) (m ! k))), b, c)"

fun md5_block :: "md5_state \<Rightarrow> int list \<Rightarrow> md5_state" where
  "md5_block (a0, b0, c0, d0) m =
     (case fold (md5_step md5_I m) md5_round4
            (fold (md5_step md5_H m) md5_round3
              (fold (md5_step md5_G m) md5_round2
                (fold (md5_step md5_F m) md5_round1 (a0, b0, c0, d0)))) of
        (a, b, c, d) \<Rightarrow> (add32 a0 a, add32 b0 b, add32 c0 c, add32 d0 d))"

definition md5_init :: md5_state where
  "md5_init = (0x67452301, 0xefcdab89, 0x98badcfe, 0x10325476)"

definition le_bytes4 :: "int \<Rightarrow> int list" where
  "le_bytes4 n = [n mod 256, n div 256 mod 256, n div 65536 mod 256, n div 16777216 mod 256]"

definition le_bytes8 :: "int \<Rightarrow> int list" where
  "le_bytes8 n = le_bytes4 (n mod 4294967296) @ le_bytes4 (n div 4294967296 mod 4294967296)"

text \<open>Padding: a one bit, zeros up to 56 modulo 64 bytes, the length in bits on 8 bytes.\<close>

definition md5_pad :: "int list \<Rightarrow> int list" where
  "md5_pad bs =
     bs @ [128] @ replicate ((119 - length bs mod 64) mod 64) 0
        @ le_bytes8 (8 * int (length bs))"

fun le_words :: "int list \<Rightarrow> int list" where
  "le_words (b0 # b1 # b2 # b3 # bs) =
     (b0 + 256 * b1 + 65536 * b2 + 16777216 * b3) # le_words bs"
| "le_words _ = []"

function md5_blocks :: "md5_state \<Rightarrow> int list \<Rightarrow> md5_state" where
  "md5_blocks st ws =
     (if length ws < 16 then st else md5_blocks (md5_block st (take 16 ws)) (drop 16 ws))"
  by pat_completeness auto
termination
  by (relation "measure (\<lambda>(st, ws). length ws)") auto

declare md5_blocks.simps [simp del]

fun md5_digest :: "int list \<Rightarrow> int list" where
  "md5_digest bs =
     (case md5_blocks md5_init (le_words (md5_pad bs)) of
        (a, b, c, d) \<Rightarrow> le_bytes4 a @ le_bytes4 b @ le_bytes4 c @ le_bytes4 d)"

definition hex_digit :: "int \<Rightarrow> char" where
  "hex_digit n = ''0123456789abcdef'' ! nat n"

definition hexdigest :: "int list \<Rightarrow> string" where
  "hexdigest bs = concat (map (\<lambda>b. [hex_digit (b div 16), hex_digit (b mod 16)]) bs)"

text \<open>\<open>s.encode()\<close>: the characters of a \<open>string\<close> are its bytes.\<close>

definition md5_hexdigest :: "string \<Rightarrow> string" where
  "md5_hexdigest s = hexdigest (md5_digest (map of_char s))"

section \<open>Rendering an integer in an f-string\<close>

definition digit_char :: "nat \<Rightarrow> char" where
  "digit_char n = ''0123456789'' ! n"

function str_nat :: "nat \<Rightarrow> string" where
  "str_nat n = (if n < 10 then [digit_char n] else str_nat (n div 10) @ [digit_char (n mod 10)])"
  by pat_completeness auto
termination
  by (relation "measure id") auto

declare str_nat.simps [simp del]

definition py_str :: "int \<Rightarrow> string" where
  "py_str i = (if i < 0 then CHR ''-'' # str_nat (nat (- i)) else str_nat (nat i))"

section \<open>The store: tables of \<open>init_db\<close>\<close>

text \<open>
  A timestamp (\<open>CURRENT_TIMESTAMP\<close>, \<open>datetime('now', ...)\<close>) is the number of seconds since
  the epoch. SQLite keeps it as the text \<open>YYYY-MM-DD HH:MM:SS\<close>, whose order as text is the
  order in time, so the comparisons of the queries are comparisons of these numbers.
  The primary keys are \<open>u_id\<close> (\<open>users.id\<close>) and \<open>c_id\<close> (\<open>clicks.id\<close>); the two
  counters are the AUTOINCREMENT sequences of the tables.
\<close>

type_synonym timestamp = int

record user_row =
  u_id :: nat
  telegram_id :: int
  username :: string
  first_name :: string
  last_name :: string
  registered_at :: timestamp
  clicks_count :: int
  ref_code :: string
  referrer_id :: "int option"
  last_active :: timestamp

record click_row =
  c_id :: nat
  user_id :: nat
  platform :: string
  course_id :: "int option"
  clicked_at :: timestamp

record db =
  users :: "user_row list"
  clicks :: "click_row list"
  users_seq :: nat
  clicks_seq :: nat

text \<open>\<open>CREATE TABLE IF NOT EXISTS\<close>: a new file gets empty tables, an existing one is kept.\<close>

definition init_db :: "db option \<Rightarrow> db" where
  "init_db existing =
     (case existing of
        None \<Rightarrow> \<lparr>users = [], clicks = [], users_seq = 0, clicks_seq = 0\<rparr>
      | Some d \<Rightarrow> d)"

definition PARTNER_LINKS :: "(string \<times> string) list" where
  "PARTNER_LINKS =
     [(''skillbox'', ''https://l.skbx.pro/DQLFW6''),
      (''skillfactory'', ''https://go.redav.online/26e5202921d69dd1''),
      (''geekbrains'', ''https://go.redav.online/17d53d9e858961e1'')]"

section \<open>Store errors and return values\<close>

text \<open>
  Every function opens a connection, runs its statements inside \<open>try\<close> and closes the
  connection in \<open>finally\<close>. A \<open>fault\<close> names the store call of the \<open>try\<close> block
  (\<open>execute\<close> or \<open>commit\<close>, counted from 0) that raises, if any. Writes go to the
  connection's transaction; \<open>commit\<close> makes them the stored state, and a connection closed
  without \<open>commit\<close> leaves the stored state as it was. Opening the connection itself
  (before the \<open>try\<close>) is taken to succeed.
\<close>

datatype error = StoreError

type_synonym fault = "nat option"

definition store_call :: "fault \<Rightarrow> nat \<Rightarrow> 'a \<Rightarrow> error + 'a" where
  "store_call f k v = (if f = Some k then Inl StoreError else Inr v)"

record user_stats =
  user :: user_row
  platforms_count :: nat
  total_clicks :: nat
  platforms_clicks :: "(string \<times> nat) list"
  recent_clicks :: "(string \<times> timestamp) list"

datatype pyval = PyNone | PyStr string | PyStats user_stats

section \<open>add_user\<close>

definition ref_code_of :: "int \<Rightarrow> string \<Rightarrow> string" where
  "ref_code_of tid stamp = take 8 (md5_hexdigest (py_str tid @ stamp))"

text \<open>
  \<open>INSERT OR IGNORE\<close>: the row is skipped when it breaks a uniqueness constraint of the
  table (\<open>telegram_id UNIQUE\<close>, \<open>ref_code UNIQUE\<close>). SQLite takes the next key of the
  AUTOINCREMENT sequence before it checks the constraints, so a skipped row still advances
  the sequence of \<open>users\<close> by one.
\<close>

definition insert_or_ignore_user ::
  "timestamp \<Rightarrow> int \<Rightarrow> string \<Rightarrow> string \<Rightarrow> string \<Rightarrow> string \<Rightarrow> int option \<Rightarrow> db \<Rightarrow> db" where
  "insert_or_ignore_user now tid uname fname lname code ref d =
     (if \<exists>u\<in>set (users d). telegram_id u = tid \<or> ref_code u = code
      then d\<lparr>users_seq := Suc (users_seq d)\<rparr>
      else d\<lparr>users := users d @
                 [\<lparr>u_id = Suc (users_seq d), telegram_id = tid, username = uname,
                   first_name = fname, last_name = lname, registered_at = now,
                   clicks_count = 0, ref_code = code, referrer_id = ref,
                   last_active = now\<rparr>],
             users_seq := Suc (users_seq d)\<rparr>)"

text \<open>
  \<open>stamp\<close> is the rendering of \<open>datetime.now().timestamp()\<close> in the f-string, \<open>now\<close> the
  value of \<open>CURRENT_TIMESTAMP\<close>.
\<close>

definition add_user_try ::
  "fault \<Rightarrow> timestamp \<Rightarrow> string \<Rightarrow> int \<Rightarrow> string \<Rightarrow> string \<Rightarrow> string \<Rightarrow> int option \<Rightarrow> db
     \<Rightarrow> error + (pyval \<times> db)" where
  "add_user_try f now stamp tid uname fname lname ref d =
     (let code = ref_code_of tid stamp in
      case store_call f 0 (insert_or_ignore_user now tid uname fname lname code ref d) of
        Inl e \<Rightarrow> Inl e
      | Inr w \<Rightarrow>
          (case store_call f 1 w of
             Inl e \<Rightarrow> Inl e
           | Inr committed \<Rightarrow> Inr (PyStr code, committed)))"

definition add_user ::
  "fault \<Rightarrow> timestamp \<Rightarrow> string \<Rightarrow> int \<Rightarrow> string \<Rightarrow> string \<Rightarrow> string \<Rightarrow> int option \<Rightarrow> db
     \<Rightarrow> pyval \<times> db" where
  "add_user f now stamp tid uname fname lname ref d =
     (case add_user_try f now stamp tid uname fname lname ref d of
        Inl e \<Rightarrow> (PyNone, d)
      | Inr r \<Rightarrow> r)"

section \<open>update_user_activity\<close>

definition update_user_activity_try :: "fault \<Rightarrow> timestamp \<Rightarrow> int \<Rightarrow> db \<Rightarrow> error + db" where
  "update_user_activity_try f now tid d =
     (case store_call f 0
             (d\<lparr>users := map (\<lambda>u. if telegram_id u = tid then u\<lparr>last_active := now\<rparr> else u)
                             (users d)\<rparr>) of
        Inl e \<Rightarrow> Inl e
      | Inr w \<Rightarrow> store_call f 1 w)"

definition update_user_activity :: "fault \<Rightarrow> timestamp \<Rightarrow> int \<Rightarrow> db \<Rightarrow> pyval \<times> db" where
  "update_user_activity f now tid d =
     (case update_user_activity_try f now tid d of
        Inl e \<Rightarrow> (PyNone, d)
      | Inr committed \<Rightarrow> (PyNone, committed))"

section \<open>add_click\<close>

definition add_click_try ::
  "fault \<Rightarrow> timestamp \<Rightarrow> int \<Rightarrow> string \<Rightarrow> int option \<Rightarrow> db \<Rightarrow> error + db" where
  "add_click_try f now tid plat course d =
     (case store_call f 0 (filter (\<lambda>u. telegram_id u = tid) (users d)) of
        Inl e \<Rightarrow> Inl e
      | Inr rows \<Rightarrow>
          (case rows of
             [] \<Rightarrow> Inr d
           | urow # _ \<Rightarrow>
               (case store_call f 1
                       (d\<lparr>clicks := clicks d @
                                   [\<lparr>c_id = Suc (clicks_seq d), user_id = u_id urow,
                                     platform = plat, course_id = course, clicked_at = now\<rparr>],
                          clicks_seq := Suc (clicks_seq d)\<rparr>) of
                  Inl e \<Rightarrow> Inl e
                | Inr w1 \<Rightarrow>
                    (case store_call f 2
                            (w1\<lparr>users :=
                                   map (\<lambda>u. if u_id u = u_id urow
                                             then u\<lparr>clicks_count := clicks_count u + 1,
                                                    last_active := now\<rparr>
                                             else u)
                                       (users w1)\<rparr>) of
                       Inl e \<Rightarrow> Inl e
                     | Inr w2 \<Rightarrow> store_call f 3 w2))))"

definition add_click ::
  "fault \<Rightarrow> timestamp \<Rightarrow> int \<Rightarrow> string \<Rightarrow> int option \<Rightarrow> db \<Rightarrow> pyval \<times> db" where
  "add_click f now tid plat course d =
     (if map_of PARTNER_LINKS plat = None then (PyNone, d)
      else case add_click_try f now tid plat course d of
             Inl e \<Rightarrow> (PyNone, d)
           | Inr committed \<Rightarrow> (PyNone, committed))"

section \<open>get_user_stats\<close>

text \<open>
  \<open>GROUP BY k\<close> with \<open>COUNT(*)\<close>, and \<open>ORDER BY key DESC\<close>. SQL leaves the order of rows
  with equal keys open; here they keep the order of the table.
\<close>

definition group_count :: "'a list \<Rightarrow> ('a \<times> nat) list" where
  "group_count ks = map (\<lambda>k. (k, count_list ks k)) (remdups ks)"

definition order_by_desc :: "('a \<Rightarrow> int) \<Rightarrow> 'a list \<Rightarrow> 'a list" where
  "order_by_desc key rows = sort_key (\<lambda>r. - key r) rows"

text \<open>\<open>FROM clicks c JOIN users u ON c.user_id = u.id WHERE u.telegram_id = ?\<close>\<close>

definition user_clicks :: "int \<Rightarrow> db \<Rightarrow> click_row list" where
  "user_clicks tid d =
     [c. c \<leftarrow> clicks d, u \<leftarrow> users d, u_id u = user_id c \<and> telegram_id u = tid]"

text \<open>
  \<open>SELECT u.*, COUNT(DISTINCT c.platform), COUNT(c.id) FROM users u LEFT JOIN clicks c
  ON u.id = c.user_id WHERE u.telegram_id = ? GROUP BY u.id\<close>
\<close>

definition select_user_data :: "int \<Rightarrow> db \<Rightarrow> (user_row \<times> nat \<times> nat) list" where
  "select_user_data tid d =
     map (\<lambda>u. let cs = filter (\<lambda>c. user_id c = u_id u) (clicks d)
              in (u, length (remdups (map platform cs)), length cs))
         (filter (\<lambda>u. telegram_id u = tid) (users d))"

definition get_user_stats_try :: "fault \<Rightarrow> int \<Rightarrow> db \<Rightarrow> error + pyval" where
  "get_user_stats_try f tid d =
     (case store_call f 0 (select_user_data tid d) of
        Inl e \<Rightarrow> Inl e
      | Inr rows \<Rightarrow>
          (case rows of
             [] \<Rightarrow> Inr PyNone
           | (u, n_platforms, n_clicks) # _ \<Rightarrow>
               (case store_call f 1
                       (order_by_desc (\<lambda>r. int (snd r))
                          (group_count (map platform (user_clicks tid d)))) of
                  Inl e \<Rightarrow> Inl e
                | Inr per_platform \<Rightarrow>
                    (case store_call f 2 (take 5 (order_by_desc clicked_at (user_clicks tid d))) of
                       Inl e \<Rightarrow> Inl e
                     | Inr recent \<Rightarrow>
                         Inr (PyStats
                               \<lparr>user = u, platforms_count = n_platforms,
                                total_clicks = n_clicks, platforms_clicks = per_platform,
                                recent_clicks =
                                  map (\<lambda>c. (platform c, clicked_at c)) recent\<rparr>)))))"

definition get_user_stats :: "fault \<Rightarrow> int \<Rightarrow> db \<Rightarrow> pyval" where
  "get_user_stats f tid d =
     (case get_user_stats_try f tid d of Inl e \<Rightarrow> PyNone | Inr r \<Rightarrow> r)"

section \<open>admin_panel: the global statistics\<close>

record global_stats =
  total_users :: nat
  total_clicks_all :: nat
  active_users :: nat
  platform_stats :: "(string \<times> nat) list"
  daily_stats :: "(int \<times> nat) list"

text \<open>
  The panel answers only the identity of \<open>ADMIN_IDS\<close>; \<open>None\<close> is the refusal. A day
  (\<open>DATE(clicked_at)\<close>) is the number of whole days since the epoch.
\<close>

definition admin_panel :: "int \<Rightarrow> int \<Rightarrow> timestamp \<Rightarrow> db \<Rightarrow> global_stats option" where
  "admin_panel admin_id caller now d =
     (if caller \<notin> set [admin_id] then None
      else Some
        \<lparr>total_users = length (users d),
         total_clicks_all = length (clicks d),
         active_users =
           length (remdups (map telegram_id
             (filter (\<lambda>u. now - 7 * 86400 < last_active u) (users d)))),
         platform_stats =
           order_by_desc (\<lambda>r. int (snd r)) (group_count (map platform (clicks d))),
         daily_stats =
           order_by_desc fst
             (group_count (map (\<lambda>c. clicked_at c div 86400)
                (filter (\<lambda>c. now - 7 * 86400 < clicked_at c) (clicks d))))\<rparr>)"

section \<open>Constraints of the schema\<close>

text \<open>
  The primary keys and the \<open>UNIQUE\<close> columns hold no value twice, and no key is above
  its AUTOINCREMENT sequence.
\<close>

definition schema_ok :: "db \<Rightarrow> bool" where
  "schema_ok d \<longleftrightarrow>
     distinct (map u_id (users d)) \<and>
     distinct (map telegram_id (users d)) \<and>
     distinct (map ref_code (users d)) \<and>
     distinct (map c_id (clicks d)) \<and>
     list_all (\<lambda>u. u_id u \<le> users_seq d) (users d) \<and>
     list_all (\<lambda>c. c_id c \<le> clicks_seq d) (clicks d)"

section \<open>Faults and example states used in the statements\<close>

text \<open>\<open>raises_in f n\<close>: one of the first \<open>n\<close> store calls of the operation raises.\<close>

definition raises_in :: "fault \<Rightarrow> nat \<Rightarrow> bool" where
  "raises_in f n = (case f of None \<Rightarrow> False | Some k \<Rightarrow> k < n)"

definition ann :: user_row where
  "ann = \<lparr>u_id = 1, telegram_id = 42, username = ''ann'', first_name = ''Ann'', last_name = [],
           registered_at = 1700000000, clicks_count = 0, ref_code = ''1d15e205'', referrer_id = None,
           last_active = 1700000000\<rparr>"

definition db_ann :: db where
  "db_ann = \<lparr>users = [ann], clicks = [], users_seq = 1, clicks_seq = 0\<rparr>"

text \<open>
  \<open>db_clicks\<close> is \<open>db_ann\<close> after three clicks of the user: two on skillbox, one on
  geekbrains.
\<close>

definition ann3 :: user_row where
  "ann3 = ann\<lparr>clicks_count := 3, last_active := 1700000300\<rparr>"

definition db_clicks :: db where
  "db_clicks =
     \<lparr>users = [ann3],
      clicks =
        [\<lparr>c_id = 1, user_id = 1, platform = ''skillbox'', course_id = Some 5, clicked_at = 1700000100\<rparr>,
         \<lparr>c_id = 2, user_id = 1, platform = ''geekbrains'', course_id = Some 3, clicked_at = 1700000200\<rparr>,
         \<lparr>c_id = 3, user_id = 1, platform = ''skillbox'', course_id = Some 8, clicked_at = 1700000300\<rparr>],
      users_seq = 1, clicks_seq = 3\<rparr>"

text \<open>
  The row that \<open>add_user\<close> inserts, and the state after the registration of one user
  whose referral code is \<open>bd887db8\<close>.
\<close>

definition new_user_row ::
  "timestamp \<Rightarrow> int \<Rightarrow> string \<Rightarrow> string \<Rightarrow> string \<Rightarrow> string \<Rightarrow> int option \<Rightarrow> db \<Rightarrow> user_row" where
  "new_user_row now tid uname fname lname code ref d =
     \<lparr>u_id = Suc (users_seq d), telegram_id = tid, username = uname, first_name = fname,
      last_name = lname, registered_at = now, clicks_count = 0, ref_code = code,
      referrer_id = ref, last_active = now\<rparr>"

definition bob_id :: int where "bob_id = 500030569"
definition carol_id :: int where "carol_id = 500505722"

definition db_bob :: db where
  "db_bob =
     \<lparr>users = [new_user_row 1700001091 bob_id ''bob'' ''Bob'' [] ''bd887db8'' None (init_db None)],
      clicks = [], users_seq = 1, clicks_seq = 0\<rparr>"

text \<open>
  \<open>db_two\<close> holds two users: \<open>ann\<close>, last active at 1700000000, and \<open>dan\<close>, last active
  eight days later, at 1700691200.
\<close>

definition dan :: user_row where
  "dan = \<lparr>u_id = 2, telegram_id = 77, username = ''dan'', first_name = ''Dan'', last_name = [],
           registered_at = 1700000500, clicks_count = 0, ref_code = ''0a1b2c3d'',
           referrer_id = Some 42, last_active = 1700691200\<rparr>"

definition db_two :: db where
  "db_two = \<lparr>users = [ann, dan], clicks = [], users_seq = 2, clicks_seq = 0\<rparr>"

section \<open>Evaluating the digest\<close>

text \<open>
  Rewrite rules that let the simplifier run \<open>md5_hexdigest\<close> and \<open>py_str\<close> on literals,
  and the digests of three test messages (the empty one, \<open>abc\<close>, and one of two blocks).
\<close>

lemma replicate_numeral_unfold: "replicate (numeral k) x = x # replicate (pred_numeral k) x"
  by (simp add: numeral_eq_Suc)

lemma md5_blocks_done: "length ws < 16 \<Longrightarrow> md5_blocks st ws = st"
  by (simp add: md5_blocks.simps)

lemma md5_blocks_more:
  "\<not> length ws < 16 \<Longrightarrow>
   md5_blocks st ws = md5_blocks (md5_block st (take 16 ws)) (drop 16 ws)"
  by (subst md5_blocks.simps) simp

lemma str_nat_digit: "n < 10 \<Longrightarrow> str_nat n = [digit_char n]"
  by (simp add: str_nat.simps)

lemma str_nat_more: "\<not> n < 10 \<Longrightarrow> str_nat n = str_nat (n div 10) @ [digit_char (n mod 10)]"
  by (subst str_nat.simps) simp

lemmas md5_eval = md5_hexdigest_def hexdigest_def hex_digit_def md5_pad_def
  le_bytes4_def le_bytes8_def md5_init_def md5_round1_def md5_round2_def md5_round3_def
  md5_round4_def md5_F_def md5_G_def md5_H_def md5_I_def rotl32_def add32_def not32_def
  replicate_numeral_unfold md5_blocks_done md5_blocks_more

lemmas py_str_eval = py_str_def str_nat_digit str_nat_more digit_char_def

lemma md5_hexdigest_empty: "md5_hexdigest [] = ''d41d8cd98f00b204e9800998ecf8427e''"
  by (simp add: md5_eval)

lemma md5_hexdigest_abc: "md5_hexdigest ''abc'' = ''900150983cd24fb0d6963f7d28e17f72''"
  by (simp add: md5_eval)

lemma md5_hexdigest_two_blocks:
  "md5_hexdigest
     ''12345678901234567890123456789012345678901234567890123456789012345678901234567890''
   = ''57edf4a22be3c955ac49da2e2107b67a''"
  by (simp add: md5_eval)

lemma py_str_examples: "py_str 42 = ''42''" "py_str 500030569 = ''500030569''" "py_str (- 7) = ''-7''"
  "py_str 0 = ''0''"
  by (simp_all add: py_str_eval)

lemma ref_code_ann: "ref_code_of 42 ''1700000000.5'' = ''1d15e205''"
  by (simp add: ref_code_of_def py_str_eval md5_eval)

lemma ref_code_ann_again: "ref_code_of 42 ''1700000060.5'' = ''1f9f0184''"
  by (simp add: ref_code_of_def py_str_eval md5_eval)

lemma ref_code_first: "ref_code_of 500030569 ''1700001091.75'' = ''bd887db8''"
  by (simp add: ref_code_of_def py_str_eval md5_eval)

lemma ref_code_second: "ref_code_of 500505722 ''1700018061.5'' = ''bd887db8''"
  by (simp add: ref_code_of_def py_str_eval md5_eval)

section \<open>Auxiliary facts\<close>

lemma store_call_None [simp]: "store_call None k v = Inr v"
  by (simp add: store_call_def)

lemma store_call_Some [simp]:
  "store_call (Some j) k v = (if j = k then Inl StoreError else Inr v)"
  by (simp add: store_call_def)

lemma filter_unique_key:
  "distinct (map key xs) \<Longrightarrow> x \<in> set xs \<Longrightarrow> filter (\<lambda>y. key y = key x) xs = [x]"
  by (induction xs) (auto simp: filter_empty_conv image_iff)

lemma unique_key_eq:
  "distinct (map key xs) \<Longrightarrow> x \<in> set xs \<Longrightarrow> y \<in> set xs \<Longrightarrow> key y = key x \<Longrightarrow> y = x"
  by (meson distinct_map inj_onD)

lemma filter_no_key: "k \<notin> set (map key xs) \<Longrightarrow> filter (\<lambda>y. key y = k) xs = []"
  by (auto simp: filter_empty_conv)

lemma init_db_schema_ok: "schema_ok (init_db None)"
  by (simp add: schema_ok_def init_db_def)

lemma user_row_of_tid:
  "schema_ok d \<Longrightarrow> u \<in> set (users d) \<Longrightarrow> telegram_id u = tid \<Longrightarrow>
   filter (\<lambda>v. telegram_id v = tid) (users d) = [u]"
  using filter_unique_key [of telegram_id "users d" u] by (auto simp: schema_ok_def)

lemma bump_only_row:
  "schema_ok d \<Longrightarrow> u \<in> set (users d) \<Longrightarrow>
   map (\<lambda>v. if u_id v = u_id u then g v else v) (users d) =
   map (\<lambda>v. if v = u then g u else v) (users d)"
  by (rule map_cong) (auto simp: schema_ok_def dest: unique_key_eq [of u_id])

lemma concat_map_if_filter:
  "concat (map (\<lambda>c. if P c then [c] else []) cs) = filter P cs"
  by (induction cs) auto

lemma concat_map_if_const:
  "concat (map (\<lambda>v. if Q v then [c] else []) vs) = replicate (length (filter Q vs)) c"
  by (induction vs) auto

lemma user_clicks_of_row:
  assumes "schema_ok d" and "u \<in> set (users d)" and "telegram_id u = tid"
  shows "user_clicks tid d = filter (\<lambda>c. user_id c = u_id u) (clicks d)"
proof -
  have row: "filter (\<lambda>v. telegram_id v = tid) (users d) = [u]"
    by (rule user_row_of_tid [OF assms])
  have flt: "filter (\<lambda>v. u_id v = user_id c \<and> telegram_id v = tid) (users d)
        = (if user_id c = u_id u then [u] else [])" for c :: click_row
  proof -
    have "filter (\<lambda>v. u_id v = user_id c \<and> telegram_id v = tid) (users d)
        = filter (\<lambda>v. u_id v = user_id c) (filter (\<lambda>v. telegram_id v = tid) (users d))"
      by (simp add: conj_commute)
    also have "\<dots> = (if user_id c = u_id u then [u] else [])"
      by (auto simp: row)
    finally show ?thesis .
  qed
  have len: "length (filter (\<lambda>v. u_id v = user_id c \<and> telegram_id v = tid) (users d))
        = (if user_id c = u_id u then 1 else 0)" for c :: click_row
    by (simp add: flt)
  have "user_clicks tid d
        = concat (map (\<lambda>c. if user_id c = u_id u then [c] else []) (clicks d))"
  proof -
    have rep: "replicate (if b then 1 else 0) c = (if b then [c] else [])" for b and c :: click_row
      by simp
    show ?thesis
      unfolding user_clicks_def concat_map_if_const len rep ..
  qed
  then show ?thesis
    by (simp add: concat_map_if_filter)
qed

lemma select_user_data_of_row:
  assumes "schema_ok d" and "u \<in> set (users d)" and "telegram_id u = tid"
  shows "select_user_data tid d =
     [(u, length (remdups (map platform (filter (\<lambda>c. user_id c = u_id u) (clicks d)))),
          length (filter (\<lambda>c. user_id c = u_id u) (clicks d)))]"
  by (simp add: select_user_data_def user_row_of_tid [OF assms] Let_def)

lemma get_user_stats_of_row:
  assumes "schema_ok d" and "u \<in> set (users d)" and "telegram_id u = tid"
  shows "get_user_stats None tid d =
     PyStats
       \<lparr>user = u,
        platforms_count =
          length (remdups (map platform (filter (\<lambda>c. user_id c = u_id u) (clicks d)))),
        total_clicks = length (filter (\<lambda>c. user_id c = u_id u) (clicks d)),
        platforms_clicks =
          order_by_desc (\<lambda>r. int (snd r))
            (group_count (map platform (filter (\<lambda>c. user_id c = u_id u) (clicks d)))),
        recent_clicks =
          map (\<lambda>c. (platform c, clicked_at c))
            (take 5 (order_by_desc clicked_at (filter (\<lambda>c. user_id c = u_id u) (clicks d))))\<rparr>"
  by (simp add: get_user_stats_def get_user_stats_try_def select_user_data_of_row [OF assms]
      user_clicks_of_row [OF assms])

lemma order_by_desc_mset: "mset (order_by_desc key rows) = mset rows"
  by (simp add: order_by_desc_def)

lemma order_by_desc_set: "set (order_by_desc key rows) = set rows"
  by (simp add: order_by_desc_def)

lemma order_by_desc_distinct_map:
  "distinct (map g (order_by_desc key rows)) = distinct (map g rows)"
proof -
  have "mset (map g (order_by_desc key rows)) = mset (map g rows)"
    by (simp add: order_by_desc_mset)
  then show ?thesis
    by (rule mset_eq_imp_distinct_iff)
qed

lemma order_by_desc_sorted: "sorted_wrt (\<lambda>a b. key b \<le> key a) (order_by_desc key rows)"
proof -
  have "sorted (map (\<lambda>r. - key r) (sort_key (\<lambda>r. - key r) rows))"
    by (rule sorted_sort_key)
  then show ?thesis
    by (simp add: order_by_desc_def sorted_map)
qed

lemma group_count_keys: "map fst (group_count ks) = remdups ks"
  by (simp add: group_count_def comp_def)

lemma group_count_set: "set (group_count ks) = {(k, n). k \<in> set ks \<and> n = count_list ks k}"
  by (auto simp: group_count_def)

lemma count_list_map_filter:
  "count_list (map g xs) k = length (filter (\<lambda>x. g x = k) xs)"
  by (induction xs) auto

lemma mset3:
  assumes "mset ks = {#a, a, b#}"
  shows "ks = [a, a, b] \<or> ks = [a, b, a] \<or> ks = [b, a, a]"
proof -
  from assms have "length ks = 3"
    by (metis size_mset size_add_mset size_single numeral_3_eq_3 One_nat_def)
  then obtain x y z where ks: "ks = [x, y, z]"
    by (auto simp: numeral_3_eq_3 length_Suc_conv)
  from assms show ?thesis
    unfolding ks by (auto simp: add_eq_conv_ex)
qed

lemma breakdown_example:
  assumes "mset ks = {#''skillbox'', ''skillbox'', ''geekbrains''#}"
  shows "order_by_desc (\<lambda>r. int (snd r)) (group_count ks) = [(''skillbox'', 2), (''geekbrains'', 1)]"
  using mset3 [OF assms]
  by (auto simp: order_by_desc_def group_count_def)

lemma db_clicks_by_add_click:
  "snd (add_click None 1700000300 42 ''skillbox'' (Some 8)
     (snd (add_click None 1700000200 42 ''geekbrains'' (Some 3)
        (snd (add_click None 1700000100 42 ''skillbox'' (Some 5) db_ann))))) = db_clicks"
  by (simp add: add_click_def add_click_try_def PARTNER_LINKS_def db_ann_def ann_def
      db_clicks_def ann3_def)

lemma add_user_fresh:
  assumes "tid \<notin> set (map telegram_id (users d))"
    and "ref_code_of tid stamp \<notin> set (map ref_code (users d))"
  shows "add_user None now stamp tid uname fname lname ref d =
     (PyStr (ref_code_of tid stamp),
      d\<lparr>users := users d @
                [new_user_row now tid uname fname lname (ref_code_of tid stamp) ref d],
        users_seq := Suc (users_seq d)\<rparr>)"
proof -
  have "\<not> (\<exists>u\<in>set (users d). telegram_id u = tid \<or> ref_code u = ref_code_of tid stamp)"
    using assms by (auto simp: image_iff)
  then show ?thesis
    by (simp add: add_user_def add_user_try_def insert_or_ignore_user_def new_user_row_def Let_def)
qed

lemma add_user_ignored:
  assumes "tid \<in> set (map telegram_id (users d)) \<or>
           ref_code_of tid stamp \<in> set (map ref_code (users d))"
  shows "add_user f now stamp tid uname fname lname ref d =
     (if raises_in f 2 then (PyNone, d)
      else (PyStr (ref_code_of tid stamp), d\<lparr>users_seq := Suc (users_seq d)\<rparr>))"
proof -
  have "\<exists>u\<in>set (users d). telegram_id u = tid \<or> ref_code u = ref_code_of tid stamp"
    using assms by auto
  then show ?thesis
    by (cases f)
       (simp_all add: add_user_def add_user_try_def insert_or_ignore_user_def raises_in_def Let_def)
qed

lemma db_ann_by_add_user:
  "add_user None 1700000000 ''1700000000.5'' 42 ''ann'' ''Ann'' [] None (init_db None)
   = (PyStr ''1d15e205'', db_ann)"
  by (simp add: add_user_def add_user_try_def insert_or_ignore_user_def ref_code_ann Let_def
      init_db_def db_ann_def ann_def)

lemma schema_ok_insert:
  assumes "schema_ok d" and "tid \<notin> set (map telegram_id (users d))"
    and "code \<notin> set (map ref_code (users d))"
  shows "schema_ok (d\<lparr>users := users d @ [new_user_row now tid uname fname lname code ref d],
                     users_seq := Suc (users_seq d)\<rparr>)"
proof -
  have "Suc (users_seq d) \<notin> set (map u_id (users d))"
    using assms(1) by (fastforce simp: schema_ok_def list_all_iff)
  moreover have "list_all (\<lambda>u. u_id u \<le> Suc (users_seq d)) (users d)"
    using assms(1) by (auto simp: schema_ok_def list_all_iff)
  ultimately show ?thesis
    using assms by (simp add: schema_ok_def new_user_row_def)
qed

lemma distinct_map_remove1: "distinct (map key xs) \<Longrightarrow> distinct (map key (remove1 x xs))"
  by (induction xs) (auto simp: image_iff dest: notin_set_remove1)

lemma active_count_rows:
  assumes "distinct (map telegram_id us)"
  shows "length (remdups (map telegram_id (filter P us))) = length (filter P us)"
proof -
  have "distinct (map telegram_id (filter P us))"
    using assms by (rule distinct_map_filter)
  then show ?thesis
    by (simp add: distinct_remdups_id)
qed

lemma length_filter_remove1:
  assumes "x \<in> set xs"
  shows "length (filter P xs) = length (filter P (remove1 x xs)) + (if P x then 1 else 0)"
  using assms
  by (induction xs) auto

section \<open>The constraints hold in every state the operations reach\<close>

text \<open>
  A new store satisfies \<open>schema_ok\<close> (\<open>init_db_schema_ok\<close>), and every writing operation keeps
  it, whichever of its store calls fails.
\<close>

lemma schema_ok_users_update:
  assumes "schema_ok d"
    and "map u_id us = map u_id (users d)"
    and "map telegram_id us = map telegram_id (users d)"
    and "map ref_code us = map ref_code (users d)"
  shows "schema_ok (d\<lparr>users := us\<rparr>)"
proof -
  have "list_all (\<lambda>u. u_id u \<le> users_seq d) us \<longleftrightarrow> (\<forall>i\<in>set (map u_id us). i \<le> users_seq d)"
    by (simp add: list_all_iff)
  also have "\<dots> \<longleftrightarrow> list_all (\<lambda>u. u_id u \<le> users_seq d) (users d)"
    unfolding assms(2) by (simp add: list_all_iff)
  finally show ?thesis
    using assms by (simp add: schema_ok_def)
qed

lemma schema_ok_update_user_activity:
  assumes "schema_ok d"
  shows "schema_ok (snd (update_user_activity f now tid d))"
proof -
  let ?us = "map (\<lambda>u. if telegram_id u = tid then u\<lparr>last_active := now\<rparr> else u) (users d)"
  have "schema_ok (d\<lparr>users := ?us\<rparr>)"
    by (rule schema_ok_users_update [OF assms]) (simp_all add: comp_def if_distrib)
  then show ?thesis
    using assms
    by (cases f) (auto simp: update_user_activity_def update_user_activity_try_def)
qed

lemma schema_ok_add_user:
  assumes "schema_ok d"
  shows "schema_ok (snd (add_user f now stamp tid uname fname lname ref d))"
proof (cases "tid \<in> set (map telegram_id (users d)) \<or>
              ref_code_of tid stamp \<in> set (map ref_code (users d))")
  case True
  have "schema_ok (d\<lparr>users_seq := Suc (users_seq d)\<rparr>)"
    using assms by (auto simp: schema_ok_def list_all_iff)
  then show ?thesis
    using assms by (simp add: add_user_ignored [OF True])
next
  case False
  then have fresh: "tid \<notin> set (map telegram_id (users d))"
    "ref_code_of tid stamp \<notin> set (map ref_code (users d))"
    by simp_all
  have new: "\<not> (\<exists>u\<in>set (users d). telegram_id u = tid \<or> ref_code u = ref_code_of tid stamp)"
    using fresh by (auto simp: image_iff)
  have "schema_ok (d\<lparr>users := users d @
            [new_user_row now tid uname fname lname (ref_code_of tid stamp) ref d],
          users_seq := Suc (users_seq d)\<rparr>)"
    by (rule schema_ok_insert [OF assms fresh])
  then show ?thesis
    using assms new
    by (cases f)
       (auto simp: add_user_def add_user_try_def insert_or_ignore_user_def new_user_row_def
          Let_def)
qed

lemma schema_ok_add_click:
  assumes "schema_ok d"
  shows "schema_ok (snd (add_click f now tid plat course d))"
proof (cases "filter (\<lambda>u. telegram_id u = tid) (users d)")
  case Nil
  then show ?thesis
    using assms by (cases f) (auto simp: add_click_def add_click_try_def)
next
  case (Cons urow rest)
  let ?us = "map (\<lambda>u. if u_id u = u_id urow
                       then u\<lparr>clicks_count := clicks_count u + 1, last_active := now\<rparr>
                       else u) (users d)"
  let ?cl = "\<lparr>c_id = Suc (clicks_seq d), user_id = u_id urow, platform = plat,
              course_id = course, clicked_at = now\<rparr>"
  have bumped: "schema_ok (d\<lparr>users := ?us\<rparr>)"
    by (rule schema_ok_users_update [OF assms]) (simp_all add: comp_def if_distrib)
  have "Suc (clicks_seq d) \<notin> set (map c_id (clicks d))"
    using assms by (fastforce simp: schema_ok_def list_all_iff)
  moreover have "list_all (\<lambda>c. c_id c \<le> Suc (clicks_seq d)) (clicks d)"
    using assms by (auto simp: schema_ok_def list_all_iff)
  ultimately have "schema_ok (d\<lparr>clicks := clicks d @ [?cl], clicks_seq := Suc (clicks_seq d),
                                 users := ?us\<rparr>)"
    using bumped by (simp add: schema_ok_def)
  then show ?thesis
    using assms Cons
    by (cases f) (auto simp: add_click_def add_click_try_def)
qed

section \<open>add_click: the three effects and their atomicity\<close>

text \<open>
  Claim C1. For a registered user \<open>u\<close> (a row of \<open>users\<close> with that external id) and a
  platform of \<open>PARTNER_LINKS\<close>, a call of \<open>add_click\<close> in which no store call fails
  appends exactly one row to \<open>clicks\<close>, with the key of \<open>u\<close> as its \<open>user_id\<close>, adds
  exactly 1 to the \<open>clicks_count\<close> of \<open>u\<close>, sets the \<open>last_active\<close> of \<open>u\<close> to now, and
  changes no other row. When one of its four store calls (the SELECT, the INSERT, the
  UPDATE, the commit) fails, the stored state is exactly what it was: none of the three
  effects is observed.
\<close>

theorem add_click_atomic:
  assumes "schema_ok d" and "u \<in> set (users d)" and "telegram_id u = tid"
    and "map_of PARTNER_LINKS plat \<noteq> None"
  shows "add_click f now tid plat course d =
      (PyNone,
       if raises_in f 4 then d
       else d\<lparr>clicks := clicks d @
                  [\<lparr>c_id = Suc (clicks_seq d), user_id = u_id u, platform = plat,
                    course_id = course, clicked_at = now\<rparr>],
               clicks_seq := Suc (clicks_seq d),
               users := map (\<lambda>v. if v = u
                                 then u\<lparr>clicks_count := clicks_count u + 1, last_active := now\<rparr>
                                 else v)
                           (users d)\<rparr>)"
proof -
  note row = user_row_of_tid [OF assms(1-3)]
  note bump = bump_only_row [OF assms(1,2),
      of "\<lambda>v. v\<lparr>clicks_count := clicks_count v + 1, last_active := now\<rparr>"]
  have nn: "(map_of PARTNER_LINKS plat = None) = False"
    using assms(4) by simp
  show ?thesis
    by (cases f) (simp_all add: add_click_def add_click_try_def raises_in_def nn row bump)
qed

theorem add_click_atomic_witness:
  "schema_ok db_ann \<and> ann \<in> set (users db_ann) \<and> telegram_id ann = 42 \<and>
   map_of PARTNER_LINKS ''skillbox'' \<noteq> None \<and>
   add_click None 1700000100 42 ''skillbox'' (Some 5) db_ann =
     (PyNone,
      \<lparr>users = [ann\<lparr>clicks_count := 1, last_active := 1700000100\<rparr>],
       clicks = [\<lparr>c_id = 1, user_id = 1, platform = ''skillbox'', course_id = Some 5,
                  clicked_at = 1700000100\<rparr>],
       users_seq = 1, clicks_seq = 1\<rparr>) \<and>
   add_click (Some 2) 1700000100 42 ''skillbox'' (Some 5) db_ann = (PyNone, db_ann) \<and>
   add_click (Some 3) 1700000100 42 ''skillbox'' (Some 5) db_ann = (PyNone, db_ann)"
proof -
  have h: "schema_ok db_ann" "ann \<in> set (users db_ann)" "telegram_id ann = 42"
    "map_of PARTNER_LINKS ''skillbox'' \<noteq> None"
    by (simp_all add: schema_ok_def db_ann_def ann_def PARTNER_LINKS_def)
  show ?thesis
    using h add_click_atomic [OF h, of None 1700000100 "Some 5"]
      add_click_atomic [OF h, of "Some 2" 1700000100 "Some 5"]
      add_click_atomic [OF h, of "Some 3" 1700000100 "Some 5"]
    by (simp add: raises_in_def db_ann_def ann_def)
qed

section \<open>add_user called twice with one external id\<close>

text \<open>
  Claim C2. The second call of \<open>add_user\<close> with an external id creates no second row:
  \<open>INSERT OR IGNORE\<close> skips it, and the only trace in the store is the advanced sequence.
  The code it returns, however, is the one it has just generated from the id and the
  current time, not the code stored for the user: user 42, registered at one moment with
  the code \<open>1d15e205\<close>, is given \<open>1f9f0184\<close> by a call a minute later, while the stored
  row, and with it the stored code \<open>1d15e205\<close>, is unchanged.
\<close>

theorem add_user_second_call_new_code:
  "add_user None 1700000000 ''1700000000.5'' 42 ''ann'' ''Ann'' [] None (init_db None)
     = (PyStr ''1d15e205'', db_ann) \<and>
   add_user None 1700000060 ''1700000060.5'' 42 ''ann'' ''Ann'' [] None db_ann
     = (PyStr ''1f9f0184'', db_ann\<lparr>users_seq := 2\<rparr>) \<and>
   users (snd (add_user None 1700000060 ''1700000060.5'' 42 ''ann'' ''Ann'' [] None db_ann))
     = [ann] \<and>
   ref_code ann = ''1d15e205''"
  by (simp add: add_user_def add_user_try_def insert_or_ignore_user_def ref_code_ann Let_def
      ref_code_ann_again init_db_def db_ann_def ann_def)

section \<open>Referral codes of first-time registrations\<close>

text \<open>
  Claim C3. Registrations with pairwise distinct external ids are to create one row each
  and to produce pairwise distinct codes, a fresh code never colliding with a stored one.
  \<open>add_user\<close> generates the code once, as the first 8 hexadecimal digits of an MD5 digest,
  and does not try again: the ids 500030569 (at 1700001091.75) and 500505722 (at
  1700018061.5) both get \<open>bd887db8\<close>. The first registration creates the row of
  500030569. The second creates no row: \<open>INSERT OR IGNORE\<close> skips it on the unique
  constraint of \<open>ref_code\<close>, only the sequence advances, the user 500505722 is not
  registered, and the call returns \<open>bd887db8\<close>, the code of the other user.
\<close>

theorem add_user_code_collision:
  "bob_id \<noteq> carol_id \<and>
   carol_id \<notin> set (map telegram_id (users (init_db None))) \<and>
   add_user None 1700001091 ''1700001091.75'' bob_id ''bob'' ''Bob'' [] None (init_db None)
     = (PyStr ''bd887db8'', db_bob) \<and>
   add_user None 1700018061 ''1700018061.5'' carol_id ''carol'' ''Carol'' [] None db_bob
     = (PyStr ''bd887db8'', db_bob\<lparr>users_seq := 2\<rparr>) \<and>
   map telegram_id
     (users (snd (add_user None 1700018061 ''1700018061.5'' carol_id ''carol'' ''Carol'' []
                    None db_bob))) = [bob_id] \<and>
   map ref_code (users db_bob) = [''bd887db8'']"
  by (simp add: add_user_def add_user_try_def insert_or_ignore_user_def Let_def
      ref_code_first [folded bob_id_def] ref_code_second [folded carol_id_def]
      init_db_def db_bob_def new_user_row_def)
     (simp add: bob_id_def carol_id_def)

section \<open>add_click: rejected calls\<close>

text \<open>
  Claim C4 (as amended). \<open>add_click\<close> returns \<open>None\<close> on every path, so it never raises
  and its return value does not tell a rejected call from a successful one. When the
  platform is not a key of \<open>PARTNER_LINKS\<close>, or no user has the external id, the stored
  state (the ledger and every user row) is left unchanged.
\<close>

theorem add_click_rejected:
  "fst (add_click f now tid plat course d) = PyNone \<and>
   (map_of PARTNER_LINKS plat = None \<or> tid \<notin> set (map telegram_id (users d))
      \<longrightarrow> add_click f now tid plat course d = (PyNone, d))"
  by (cases f)
     (auto simp: add_click_def add_click_try_def filter_no_key split: sum.splits list.splits)

theorem add_click_rejected_witness:
  "map_of PARTNER_LINKS ''unknown_platform'' = None \<and>
   add_click None 1700000100 42 ''unknown_platform'' None db_ann = (PyNone, db_ann) \<and>
   7 \<notin> set (map telegram_id (users db_ann)) \<and>
   add_click None 1700000100 7 ''skillbox'' (Some 5) db_ann = (PyNone, db_ann)"
  using add_click_rejected [of None 1700000100 42 "''unknown_platform''" None db_ann]
    add_click_rejected [of None 1700000100 7 "''skillbox''" "Some 5" db_ann]
  by (simp add: PARTNER_LINKS_def db_ann_def ann_def)

text \<open>
  The claim as first stated asks for a failure indication. There is none: for a
  registered user, the call with an unknown platform returns the very value that a call
  which records a click returns.
\<close>

theorem add_click_no_failure_indication:
  "map_of PARTNER_LINKS ''unknown_platform'' = None \<and>
   42 \<in> set (map telegram_id (users db_ann)) \<and>
   fst (add_click None 1700000100 42 ''unknown_platform'' None db_ann) =
   fst (add_click None 1700000100 42 ''skillbox'' (Some 5) db_ann) \<and>
   length (clicks (snd (add_click None 1700000100 42 ''skillbox'' (Some 5) db_ann))) = 1"
  by (simp add: add_click_def add_click_try_def PARTNER_LINKS_def db_ann_def ann_def)

section \<open>get_user_stats for a registered user\<close>

text \<open>
  Claim C5. For a registered user \<open>u\<close>, with \<open>cs\<close> the clicks of \<open>u\<close>, and no store call
  failing, \<open>get_user_stats\<close> returns a record that holds the profile of \<open>u\<close>, the number
  of distinct platforms of \<open>cs\<close> and the number of clicks in \<open>cs\<close>; a breakdown with
  exactly one entry per platform of \<open>cs\<close>, carrying the number of clicks on that
  platform, in descending order of that number; and the recent clicks: the first five of
  the clicks of \<open>u\<close> arranged by descending timestamp. In particular, when the clicks of
  \<open>u\<close> are two on skillbox and one on geekbrains (in any order of arrival), the breakdown
  is \<open>[(skillbox, 2), (geekbrains, 1)]\<close> in that order and the total is 3.
\<close>

theorem get_user_stats_registered:
  assumes "schema_ok d" and "u \<in> set (users d)" and "telegram_id u = tid"
    and "cs = filter (\<lambda>c. user_id c = u_id u) (clicks d)"
  shows "\<exists>s. get_user_stats None tid d = PyStats s \<and> user s = u \<and>
      platforms_count s = card (platform ` set cs) \<and>
      total_clicks s = length cs \<and>
      distinct (map fst (platforms_clicks s)) \<and>
      set (platforms_clicks s) =
        {(p, n). p \<in> platform ` set cs \<and> n = length (filter (\<lambda>c. platform c = p) cs)} \<and>
      sorted_wrt (\<lambda>a b. snd b \<le> snd a) (platforms_clicks s) \<and>
      (\<exists>ys. mset ys = mset cs \<and> sorted_wrt (\<lambda>a b. clicked_at b \<le> clicked_at a) ys \<and>
            recent_clicks s = map (\<lambda>c. (platform c, clicked_at c)) (take 5 ys)) \<and>
      (mset (map platform cs) = {#''skillbox'', ''skillbox'', ''geekbrains''#} \<longrightarrow>
         platforms_clicks s = [(''skillbox'', 2), (''geekbrains'', 1)] \<and> total_clicks s = 3)"
proof -
  let ?pc = "order_by_desc (\<lambda>r. int (snd r)) (group_count (map platform cs))"
  let ?rc = "order_by_desc clicked_at cs"
  let ?s = "\<lparr>user = u, platforms_count = length (remdups (map platform cs)),
             total_clicks = length cs, platforms_clicks = ?pc,
             recent_clicks = map (\<lambda>c. (platform c, clicked_at c)) (take 5 ?rc)\<rparr>"
  have res: "get_user_stats None tid d = PyStats ?s"
    unfolding assms(4) by (rule get_user_stats_of_row [OF assms(1-3)])
  have n_platforms: "length (remdups (map platform cs)) = card (platform ` set cs)"
    by (simp add: length_remdups_card_conv)
  have keys: "distinct (map fst ?pc)"
    by (simp add: order_by_desc_distinct_map group_count_keys)
  have rows: "set ?pc =
      {(p, n). p \<in> platform ` set cs \<and> n = length (filter (\<lambda>c. platform c = p) cs)}"
    by (simp add: order_by_desc_set group_count_set count_list_map_filter)
  have desc: "sorted_wrt (\<lambda>a b. snd b \<le> snd a) ?pc"
    using order_by_desc_sorted [of "\<lambda>r. int (snd r)" "group_count (map platform cs)"]
    by simp
  have recent: "mset ?rc = mset cs \<and> sorted_wrt (\<lambda>a b. clicked_at b \<le> clicked_at a) ?rc"
    by (simp add: order_by_desc_mset order_by_desc_sorted)
  have example: "?pc = [(''skillbox'', 2), (''geekbrains'', 1)] \<and> length cs = 3"
    if m: "mset (map platform cs) = {#''skillbox'', ''skillbox'', ''geekbrains''#}"
  proof -
    have "size (mset (map platform cs)) = 3"
      unfolding m by simp
    then have "length cs = 3" by simp
    with breakdown_example [OF m] show ?thesis by simp
  qed
  show ?thesis
  proof (intro exI [of _ ?s] conjI impI)
    show "\<exists>ys. mset ys = mset cs \<and> sorted_wrt (\<lambda>a b. clicked_at b \<le> clicked_at a) ys \<and>
            recent_clicks ?s = map (\<lambda>c. (platform c, clicked_at c)) (take 5 ys)"
      using recent by (intro exI [of _ ?rc]) simp
  qed (use res n_platforms keys rows desc example in simp_all)
qed

theorem get_user_stats_registered_witness:
  "schema_ok db_clicks \<and> ann3 \<in> set (users db_clicks) \<and> telegram_id ann3 = 42 \<and>
   mset (map platform (filter (\<lambda>c. user_id c = u_id ann3) (clicks db_clicks))) =
     {#''skillbox'', ''skillbox'', ''geekbrains''#} \<and>
   (\<exists>s. get_user_stats None 42 db_clicks = PyStats s \<and> user s = ann3 \<and>
      platforms_count s = 2 \<and> total_clicks s = 3 \<and>
      platforms_clicks s = [(''skillbox'', 2), (''geekbrains'', 1)] \<and>
      recent_clicks s = [(''skillbox'', 1700000300), (''geekbrains'', 1700000200), (''skillbox'', 1700000100)])"
proof -
  have h: "schema_ok db_clicks" "ann3 \<in> set (users db_clicks)" "telegram_id ann3 = 42"
    by (simp_all add: schema_ok_def db_clicks_def ann3_def ann_def)
  have m: "mset (map platform (filter (\<lambda>c. user_id c = u_id ann3) (clicks db_clicks))) =
     {#''skillbox'', ''skillbox'', ''geekbrains''#}"
    by (simp add: db_clicks_def ann3_def ann_def)
  from get_user_stats_registered [OF h refl]
  obtain s where s: "get_user_stats None 42 db_clicks = PyStats s" "user s = ann3"
    "platforms_count s =
       card (platform ` set (filter (\<lambda>c. user_id c = u_id ann3) (clicks db_clicks)))"
    "mset (map platform (filter (\<lambda>c. user_id c = u_id ann3) (clicks db_clicks))) =
       {#''skillbox'', ''skillbox'', ''geekbrains''#} \<longrightarrow>
     platforms_clicks s = [(''skillbox'', 2), (''geekbrains'', 1)] \<and> total_clicks s = 3"
    by blast
  have n: "card (platform ` set (filter (\<lambda>c. user_id c = u_id ann3) (clicks db_clicks))) = 2"
    by (simp add: db_clicks_def ann3_def ann_def card_insert_if)
  have r: "recent_clicks s = [(''skillbox'', 1700000300), (''geekbrains'', 1700000200), (''skillbox'', 1700000100)]"
    using s(1)
    by (auto simp: get_user_stats_def get_user_stats_try_def select_user_data_def user_clicks_def
        order_by_desc_def group_count_def db_clicks_def ann3_def ann_def)
  from s m n r h show ?thesis
    by (intro conjI exI [of _ s]) simp_all
qed

section \<open>admin_panel: users active in the last 7 days\<close>

text \<open>
  Claim C6. For the administrator, the count of active users of \<open>admin_panel\<close> is the
  number of user rows whose \<open>last_active\<close> is later than now minus 7 days. A user whose
  \<open>last_active\<close> is 8 days old adds nothing to the count (the count is the same without
  that row), a user whose \<open>last_active\<close> is now adds exactly one, and the count does not
  depend on the \<open>clicks\<close> table.
\<close>

theorem active_users_window:
  assumes "schema_ok d" and "u \<in> set (users d)"
  shows "\<exists>g g'. admin_panel a a now d = Some g \<and>
           admin_panel a a now (d\<lparr>users := remove1 u (users d)\<rparr>) = Some g' \<and>
           active_users g = card {v \<in> set (users d). now - 7 * 86400 < last_active v} \<and>
           (last_active u = now - 8 * 86400 \<longrightarrow> active_users g = active_users g') \<and>
           (last_active u = now \<longrightarrow> active_users g = Suc (active_users g')) \<and>
           (\<exists>h. admin_panel a a now (d\<lparr>clicks := cs\<rparr>) = Some h \<and>
                active_users h = active_users g)"
proof -
  let ?P = "\<lambda>v. now - 7 * 86400 < last_active v"
  have ids: "distinct (map telegram_id (users d))"
    using assms(1) by (simp add: schema_ok_def)
  then have rows: "distinct (users d)"
    by (simp add: distinct_map)
  have n: "length (remdups (map telegram_id (filter ?P (users d)))) = length (filter ?P (users d))"
    by (rule active_count_rows [OF ids])
  have n': "length (remdups (map telegram_id (filter ?P (remove1 u (users d)))))
           = length (filter ?P (remove1 u (users d)))"
    by (rule active_count_rows [OF distinct_map_remove1 [OF ids]])
  have split: "length (filter ?P (users d))
           = length (filter ?P (remove1 u (users d))) + (if ?P u then 1 else 0)"
    by (rule length_filter_remove1 [OF assms(2)])
  have c: "length (filter ?P (users d)) = card {v \<in> set (users d). ?P v}"
    using distinct_card [OF distinct_filter [OF rows, of ?P]] by simp
  show ?thesis
    unfolding admin_panel_def
    using n n' split c by auto
qed

theorem active_users_window_witness:
  "schema_ok db_two \<and> ann \<in> set (users db_two) \<and> dan \<in> set (users db_two) \<and>
   last_active ann = 1700691200 - 8 * 86400 \<and> last_active dan = 1700691200 \<and>
   (\<exists>g. admin_panel 1 1 1700691200 db_two = Some g \<and> active_users g = 1 \<and>
        total_users g = 2) \<and>
   admin_panel 1 2 1700691200 db_two = None"
proof -
  have ok: "schema_ok db_two"
    by (simp add: schema_ok_def db_two_def ann_def dan_def)
  have mem: "ann \<in> set (users db_two)" "dan \<in> set (users db_two)"
    by (simp_all add: db_two_def)
  have old: "last_active ann = 1700691200 - 8 * 86400"
    and fresh: "last_active dan = 1700691200"
    by (simp_all add: ann_def dan_def)
  have denied: "admin_panel 1 2 1700691200 db_two = None"
    by (simp add: admin_panel_def)
  from active_users_window [OF ok mem(1), where a = 1 and now = 1700691200 and cs = "[]"]
  obtain g g' where g: "admin_panel 1 1 1700691200 db_two = Some g"
    "admin_panel 1 1 1700691200 (db_two\<lparr>users := remove1 ann (users db_two)\<rparr>) = Some g'"
    "last_active ann = 1700691200 - 8 * 86400 \<longrightarrow> active_users g = active_users g'"
    by (elim exE conjE)
  from active_users_window [OF ok mem(2), where a = 1 and now = 1700691200 and cs = "[]"]
  obtain k k' where k: "admin_panel 1 1 1700691200 db_two = Some k"
    "admin_panel 1 1 1700691200 (db_two\<lparr>users := remove1 dan (users db_two)\<rparr>) = Some k'"
    "last_active dan = 1700691200 \<longrightarrow> active_users k = Suc (active_users k')"
    by (elim exE conjE)
  have "active_users k' = 0"
    using k(2) by (auto simp: admin_panel_def db_two_def ann_def dan_def)
  with k(3) fresh have one: "active_users k = 1"
    by simp
  have "total_users k = 2"
    using k(1) by (auto simp: admin_panel_def db_two_def)
  with one k(1) have ex: "\<exists>g. admin_panel 1 1 1700691200 db_two = Some g \<and>
      active_users g = 1 \<and> total_users g = 2"
    by blast
  show ?thesis
    by (intro conjI ok mem old fresh ex denied)
qed

section \<open>get_user_stats for an unknown user\<close>

text \<open>
  Claim C7. For an external id that has no row in \<open>users\<close> (rows are never deleted, so an
  id that was never registered has none), \<open>get_user_stats\<close> returns \<open>None\<close>: it returns
  a value rather than raising, whichever of its statements fails, and the value is the
  absent result, not a record of zeros.
\<close>

theorem get_user_stats_unknown:
  "tid \<notin> set (map telegram_id (users d)) \<Longrightarrow> get_user_stats f tid d = PyNone"
  by (cases f)
     (simp_all add: get_user_stats_def get_user_stats_try_def select_user_data_def filter_no_key)

theorem get_user_stats_unknown_witness:
  "7 \<notin> set (map telegram_id (users db_ann)) \<and> get_user_stats (Some 0) 7 db_ann = PyNone
   \<and> get_user_stats None 7 db_ann = PyNone"
  using get_user_stats_unknown [of 7 db_ann "Some 0"] get_user_stats_unknown [of 7 db_ann None]
  by (simp add: db_ann_def ann_def)

section \<open>update_user_activity\<close>

text \<open>
  Claim C8. \<open>update_user_activity\<close> always returns \<open>None\<close> (it never raises, for a missing
  user as for any other). When no store call fails it sets \<open>last_active\<close> to now in the
  rows of that external id and changes no other row, no other field and no other table;
  when a store call fails nothing is changed. For an id without a row the stored state is
  left as it was.
\<close>

theorem update_user_activity_touch:
  "fst (update_user_activity f now tid d) = PyNone \<and>
   snd (update_user_activity f now tid d) =
     (if raises_in f 2 then d
      else d\<lparr>users := map (\<lambda>u. if telegram_id u = tid then u\<lparr>last_active := now\<rparr> else u)
                          (users d)\<rparr>) \<and>
   (tid \<notin> set (map telegram_id (users d)) \<longrightarrow> update_user_activity f now tid d = (PyNone, d))"
proof -
  have same: "tid \<notin> set (map telegram_id (users d)) \<Longrightarrow>
      map (\<lambda>u. if telegram_id u = tid then u\<lparr>last_active := now\<rparr> else u) (users d) = users d"
    by (rule map_idI) auto
  show ?thesis
    using same
    by (cases f)
       (auto simp: update_user_activity_def update_user_activity_try_def raises_in_def)
qed

theorem update_user_activity_touch_witness:
  "7 \<notin> set (map telegram_id (users db_ann)) \<and>
   update_user_activity (Some 1) 1700005000 7 db_ann = (PyNone, db_ann) \<and>
   update_user_activity None 1700005000 7 db_ann = (PyNone, db_ann) \<and>
   snd (update_user_activity None 1700005000 42 db_ann) = db_ann\<lparr>users := [ann\<lparr>last_active := 1700005000\<rparr>]\<rparr>"
  using update_user_activity_touch [of "Some 1" 1700005000 7 db_ann]
    update_user_activity_touch [of None 1700005000 7 db_ann]
    update_user_activity_touch [of None 1700005000 42 db_ann]
  by (simp add: db_ann_def ann_def raises_in_def)

section \<open>The referrer of a new user\<close>

text \<open>
  Claim C9. When \<open>add_user\<close> creates a row, the row holds the referrer id exactly as it
  was supplied: nothing checks that it is the external id of a registered user. A referrer
  id that matches no user before the call matches none after it either (unless it is the
  new user's own id), so the stored reference dangles.
\<close>

theorem add_user_referrer_unchecked:
  assumes "tid \<notin> set (map telegram_id (users d))"
    and "ref_code_of tid stamp \<notin> set (map ref_code (users d))"
  shows "\<exists>row. add_user None now stamp tid uname fname lname ref d =
           (PyStr (ref_code_of tid stamp),
            d\<lparr>users := users d @ [row], users_seq := Suc (users_seq d)\<rparr>) \<and>
         telegram_id row = tid \<and> referrer_id row = ref \<and>
         (ref = Some r \<and> r \<noteq> tid \<and> r \<notin> set (map telegram_id (users d)) \<longrightarrow>
            r \<notin> set (map telegram_id
                       (users (snd (add_user None now stamp tid uname fname lname ref d)))))"
proof -
  let ?row = "new_user_row now tid uname fname lname (ref_code_of tid stamp) ref d"
  have res: "add_user None now stamp tid uname fname lname ref d =
      (PyStr (ref_code_of tid stamp),
       d\<lparr>users := users d @ [?row], users_seq := Suc (users_seq d)\<rparr>)"
    by (rule add_user_fresh [OF assms])
  have row: "telegram_id ?row = tid" "referrer_id ?row = ref"
    by (simp_all add: new_user_row_def)
  have dangling: "r \<notin> set (map telegram_id
                (users (snd (add_user None now stamp tid uname fname lname ref d))))"
    if "r \<noteq> tid" and "r \<notin> set (map telegram_id (users d))"
    using that by (simp add: res row)
  show ?thesis
  proof (intro exI [of _ ?row] conjI impI)
    assume "ref = Some r \<and> r \<noteq> tid \<and> r \<notin> set (map telegram_id (users d))"
    then show "r \<notin> set (map telegram_id
                (users (snd (add_user None now stamp tid uname fname lname ref d))))"
      using dangling by blast
  qed (fact res row)+
qed

theorem add_user_referrer_unchecked_witness:
  "42 \<notin> set (map telegram_id (users (init_db None))) \<and>
   ref_code_of 42 ''1700000000.5'' \<notin> set (map ref_code (users (init_db None))) \<and>
   (\<exists>row. add_user None 1700000000 ''1700000000.5'' 42 ''ann'' ''Ann'' [] (Some 999)
             (init_db None) =
           (PyStr ''1d15e205'',
            \<lparr>users = [row], clicks = [], users_seq = 1, clicks_seq = 0\<rparr>) \<and>
         telegram_id row = 42 \<and> referrer_id row = Some 999 \<and>
         999 \<notin> set (map telegram_id
                (users (snd (add_user None 1700000000 ''1700000000.5'' 42 ''ann'' ''Ann'' []
                               (Some 999) (init_db None))))))"
proof -
  have h: "42 \<notin> set (map telegram_id (users (init_db None)))"
    "ref_code_of 42 ''1700000000.5'' \<notin> set (map ref_code (users (init_db None)))"
    by (simp_all add: init_db_def)
  from add_user_referrer_unchecked [OF h, of 1700000000 "''ann''" "''Ann''" "[]" "Some 999" 999]
  obtain row where
    "add_user None 1700000000 ''1700000000.5'' 42 ''ann'' ''Ann'' [] (Some 999) (init_db None) =
       (PyStr (ref_code_of 42 ''1700000000.5''),
        (init_db None)\<lparr>users := users (init_db None) @ [row],
                        users_seq := Suc (users_seq (init_db None))\<rparr>)"
    "telegram_id row = 42" "referrer_id row = Some 999"
    "999 \<notin> set (map telegram_id
                (users (snd (add_user None 1700000000 ''1700000000.5'' 42 ''ann'' ''Ann'' []
                               (Some 999) (init_db None)))))"
    by (auto simp: init_db_def)
  then show ?thesis
    using h by (intro conjI exI [of _ row]) (simp_all add: ref_code_ann init_db_def)
qed

section \<open>get_user_stats for a registered user without clicks\<close>

text \<open>
  Claim C10. For a registered user with no row in \<open>clicks\<close>, \<open>get_user_stats\<close> returns a
  present result: the profile with a total click count of 0, a distinct-platform count of
  0, an empty per-platform breakdown and an empty list of recent clicks. It is not
  \<open>None\<close>, the result for an id that was never registered.
\<close>

theorem get_user_stats_no_clicks:
  assumes "schema_ok d" and "u \<in> set (users d)" and "telegram_id u = tid"
    and "u_id u \<notin> set (map user_id (clicks d))"
  shows "get_user_stats None tid d =
     PyStats \<lparr>user = u, platforms_count = 0, total_clicks = 0, platforms_clicks = [],
              recent_clicks = []\<rparr> \<and>
     get_user_stats None tid d \<noteq> PyNone"
proof -
  have "filter (\<lambda>c. user_id c = u_id u) (clicks d) = []"
    using assms(4) by (rule filter_no_key)
  then show ?thesis
    by (simp add: get_user_stats_of_row [OF assms(1-3)] group_count_def order_by_desc_def)
qed

theorem get_user_stats_no_clicks_witness:
  "schema_ok db_ann \<and> ann \<in> set (users db_ann) \<and> telegram_id ann = 42 \<and>
   u_id ann \<notin> set (map user_id (clicks db_ann)) \<and>
   get_user_stats None 42 db_ann =
     PyStats \<lparr>user = ann, platforms_count = 0, total_clicks = 0, platforms_clicks = [],
              recent_clicks = []\<rparr> \<and>
   get_user_stats None 7 db_ann = PyNone"
proof -
  have h: "schema_ok db_ann" "ann \<in> set (users db_ann)" "telegram_id ann = 42"
    "u_id ann \<notin> set (map user_id (clicks db_ann))"
    by (simp_all add: schema_ok_def db_ann_def ann_def)
  have "get_user_stats None 7 db_ann = PyNone"
    by (simp add: get_user_stats_def get_user_stats_try_def select_user_data_def db_ann_def ann_def)
  then show ?thesis
    using h get_user_stats_no_clicks [OF h] by simp
qed

end
